theory Spec2Isabelle
  imports Main "HOL-Library.Word"
begin

unbundle bit_operations_syntax

section \<open>The inotify helper of gio: event translation and subscription lifecycle\<close>

text \<open>
  A shallow embedding of \<^verbatim>\<open>gio/inotify/inotify-helper.c\<close>. Every public function of
  that file takes \<^verbatim>\<open>inotify_lock\<close> on entry and releases it on every exit, so one call
  never interleaves with another: the model is sequential and the lock itself is not
  represented.
\<close>

subsection \<open>The kernel's event bits\<close>

text \<open>
  The bit constants come from \<^verbatim>\<open><sys/inotify.h>\<close>; their values are the fixed
  Linux ABI. A mask is a \<^verbatim>\<open>guint32\<close>.
\<close>

definition IN_ACCESS :: "32 word" where "IN_ACCESS = 0x00000001"
definition IN_MODIFY :: "32 word" where "IN_MODIFY = 0x00000002"
definition IN_ATTRIB :: "32 word" where "IN_ATTRIB = 0x00000004"
definition IN_CLOSE_WRITE :: "32 word" where "IN_CLOSE_WRITE = 0x00000008"
definition IN_CLOSE_NOWRITE :: "32 word" where "IN_CLOSE_NOWRITE = 0x00000010"
definition IN_OPEN :: "32 word" where "IN_OPEN = 0x00000020"
definition IN_MOVED_FROM :: "32 word" where "IN_MOVED_FROM = 0x00000040"
definition IN_MOVED_TO :: "32 word" where "IN_MOVED_TO = 0x00000080"
definition IN_CREATE :: "32 word" where "IN_CREATE = 0x00000100"
definition IN_DELETE :: "32 word" where "IN_DELETE = 0x00000200"
definition IN_DELETE_SELF :: "32 word" where "IN_DELETE_SELF = 0x00000400"
definition IN_MOVE_SELF :: "32 word" where "IN_MOVE_SELF = 0x00000800"
definition IN_UNMOUNT :: "32 word" where "IN_UNMOUNT = 0x00002000"
definition IN_Q_OVERFLOW :: "32 word" where "IN_Q_OVERFLOW = 0x00004000"
definition IN_IGNORED :: "32 word" where "IN_IGNORED = 0x00008000"
definition IN_ISDIR :: "32 word" where "IN_ISDIR = 0x40000000"

definition IN_MOVE :: "32 word" where "IN_MOVE = IN_MOVED_FROM OR IN_MOVED_TO"

subsection \<open>Data\<close>

text \<open>
  The event kinds of \<^verbatim>\<open>GFileMonitorEvent\<close>. \<^verbatim>\<open>ih_mask_to_EventFlags\<close> also returns
  the integer \<^verbatim>\<open>-1\<close>, which is no enumerator: it is the last constructor here.
\<close>

datatype GFileMonitorEvent =
    G_FILE_MONITOR_EVENT_CHANGED
  | G_FILE_MONITOR_EVENT_CHANGES_DONE_HINT
  | G_FILE_MONITOR_EVENT_DELETED
  | G_FILE_MONITOR_EVENT_CREATED
  | G_FILE_MONITOR_EVENT_ATTRIBUTE_CHANGED
  | G_FILE_MONITOR_EVENT_PRE_UNMOUNT
  | G_FILE_MONITOR_EVENT_UNMOUNTED
  | G_FILE_MONITOR_EVENT_MOVED
  | G_FILE_MONITOR_EVENT_RENAMED
  | G_FILE_MONITOR_EVENT_MOVED_IN
  | G_FILE_MONITOR_EVENT_MOVED_OUT
  | G_FILE_MONITOR_EVENT_MINUS_ONE

text \<open>
  A raw event, \<^verbatim>\<open>ik_event_t\<close>, with the fields the helper reads: the watch descriptor
  \<^verbatim>\<open>wd\<close>, the \<^verbatim>\<open>mask\<close>, the \<^verbatim>\<open>name\<close> (a pointer that may be \<^verbatim>\<open>NULL\<close>), the
  \<^verbatim>\<open>pair\<close> (a pointer to another event, or \<^verbatim>\<open>NULL\<close>) and the \<^verbatim>\<open>timestamp\<close>.
\<close>

datatype ik_event_t =
  Ik_event (ev_wd: int) (ev_mask: "32 word") (ev_name: "string option")
           (ev_pair: "ik_event_t option") (ev_timestamp: int)

text \<open>
  A subscription, \<^verbatim>\<open>inotify_sub\<close>: the directory, the file name (may be \<^verbatim>\<open>NULL\<close>),
  the cancelled flag, and \<^verbatim>\<open>user_data\<close>, the opaque pointer to the consumer's sink.
\<close>

record inotify_sub =
  dirname :: string
  filename :: "string option"
  cancelled :: bool
  user_data :: nat

text \<open>Subscriptions are passed by pointer; a pointer is an address in a store.\<close>

type_synonym sub_ptr = nat

text \<open>A \<^verbatim>\<open>GFile\<close> object, made by \<^verbatim>\<open>g_file_new_for_path\<close>.\<close>

datatype GFile = GFile_for_path string

text \<open>
  What the helper does to the rest of the system is a call of a function defined
  elsewhere. Each such call is recorded, with its arguments, in the order the code makes
  it.
\<close>

datatype ext_call =
    Ip_startup
  | Im_startup
  | Ip_start_watching sub_ptr
  | Im_add sub_ptr
  | Im_rm sub_ptr
  | Ip_stop_watching sub_ptr
  | G_file_new_for_path string
  | G_file_monitor_source_handle_event
      nat GFileMonitorEvent "string option" "string option" "GFile option" int
  | G_object_unref GFile

text \<open>A failed \<^verbatim>\<open>g_assert\<close> aborts the program.\<close>

datatype ih_error = Assertion_failed

subsection \<open>Translating a mask\<close>

text \<open>
  \<^verbatim>\<open>ih_mask_to_EventFlags\<close>: the \<^verbatim>\<open>switch\<close> on the mask without \<^verbatim>\<open>IN_ISDIR\<close>, one
  branch per group of \<^verbatim>\<open>case\<close> labels, in the order of the source.
\<close>

definition ih_mask_to_EventFlags :: "32 word \<Rightarrow> GFileMonitorEvent" where
  "ih_mask_to_EventFlags mask0 =
     (let m = mask0 AND NOT IN_ISDIR in
      if m = IN_MODIFY then G_FILE_MONITOR_EVENT_CHANGED
      else if m = IN_CLOSE_WRITE then G_FILE_MONITOR_EVENT_CHANGES_DONE_HINT
      else if m = IN_ATTRIB then G_FILE_MONITOR_EVENT_ATTRIBUTE_CHANGED
      else if m = IN_MOVE_SELF \<or> m = IN_DELETE \<or> m = IN_DELETE_SELF
        then G_FILE_MONITOR_EVENT_DELETED
      else if m = IN_CREATE then G_FILE_MONITOR_EVENT_CREATED
      else if m = IN_MOVED_FROM then G_FILE_MONITOR_EVENT_MOVED_OUT
      else if m = IN_MOVED_TO then G_FILE_MONITOR_EVENT_MOVED_IN
      else if m = IN_UNMOUNT then G_FILE_MONITOR_EVENT_UNMOUNTED
      else if m = IN_Q_OVERFLOW \<or> m = IN_OPEN \<or> m = IN_CLOSE_NOWRITE
              \<or> m = IN_ACCESS \<or> m = IN_IGNORED
        then G_FILE_MONITOR_EVENT_MINUS_ONE
      else G_FILE_MONITOR_EVENT_MINUS_ONE)"

subsection \<open>Building a path\<close>

text \<open>
  \<^verbatim>\<open>_ih_fullpath_from_event\<close> (an Isabelle name cannot start with an underscore).
  \<^verbatim>\<open>g_strdup_printf ("%s/%s", a, b)\<close> is the concatenation of \<open>a\<close>, a slash and
  \<open>b\<close>. The directory is never tested against \<^verbatim>\<open>NULL\<close> by the code: it is a string.
\<close>

definition ih_fullpath_from_event :: "ik_event_t \<Rightarrow> string \<Rightarrow> string option \<Rightarrow> string" where
  "ih_fullpath_from_event event dir file =
     (case file of
        Some f \<Rightarrow> dir @ ''/'' @ f
      | None \<Rightarrow>
          (case ev_name event of
             Some n \<Rightarrow> dir @ ''/'' @ n
           | None \<Rightarrow> dir @ ''/''))"

subsection \<open>The event callback\<close>

text \<open>
  \<^verbatim>\<open>ih_event_callback\<close>. The first argument stands for \<^verbatim>\<open>_ip_get_path_for_wd\<close> of
  \<^verbatim>\<open>inotify-path.c\<close>, the lookup of a watch descriptor's directory. The result is the
  assertion failure, or the calls the function made, in order. The temporary string
  \<^verbatim>\<open>fullpath\<close> is freed as soon as the \<^verbatim>\<open>GFile\<close> is made and leaves no trace.
\<close>

definition ih_event_callback ::
  "(int \<Rightarrow> string) \<Rightarrow> ik_event_t \<Rightarrow> inotify_sub \<Rightarrow> bool \<Rightarrow> ih_error + ext_call list" where
  "ih_event_callback ip_get_path_for_wd event sub file_event =
     (if file_event then Inl Assertion_failed
      else if ev_mask event AND IN_MOVE \<noteq> 0 then
        (case ev_pair event of
           Some pair \<Rightarrow>
             if ev_wd pair = ev_wd event then
               Inr [G_file_monitor_source_handle_event (user_data sub)
                      G_FILE_MONITOR_EVENT_RENAMED
                      (ev_name event) (ev_name pair) None (ev_timestamp event)]
             else
               (let parent_dir = ip_get_path_for_wd (ev_wd pair);
                    fullpath = ih_fullpath_from_event pair parent_dir None;
                    other = GFile_for_path fullpath
                in Inr [G_file_new_for_path fullpath,
                        G_file_monitor_source_handle_event (user_data sub)
                          (ih_mask_to_EventFlags (ev_mask event))
                          (ev_name event) None (Some other) (ev_timestamp event),
                        G_object_unref other])
         | None \<Rightarrow>
             Inr [G_file_monitor_source_handle_event (user_data sub)
                    (ih_mask_to_EventFlags (ev_mask event))
                    (ev_name event) None None (ev_timestamp event)])
      else
        Inr [G_file_monitor_source_handle_event (user_data sub)
               (ih_mask_to_EventFlags (ev_mask event))
               (ev_name event) None None (ev_timestamp event)])"


subsection \<open>Startup, add and cancel\<close>

text \<open>
  The state the helper reads and writes: the two static variables of \<^verbatim>\<open>_ih_startup\<close>,
  the store of the subscriptions, and the calls made so far to the watch directory
  (\<^verbatim>\<open>_ip_\<close>) and the missing registry (\<^verbatim>\<open>_im_\<close>).
\<close>

record ih_state =
  initialized :: bool
  result :: bool
  subs :: "sub_ptr \<Rightarrow> inotify_sub"
  calls :: "ext_call list"

text \<open>
  \<^verbatim>\<open>_ih_startup\<close>. The first argument is what \<^verbatim>\<open>_ip_startup\<close> returns if this call
  reaches it. The result is the returned \<^verbatim>\<open>gboolean\<close> and the new state.
\<close>

definition ih_startup :: "bool \<Rightarrow> ih_state \<Rightarrow> bool \<times> ih_state" where
  "ih_startup ip_ok s =
     (if initialized s = True then (result s, s)
      else
        (let s1 = s\<lparr>result := ip_ok, calls := calls s @ [Ip_startup]\<rparr> in
         if \<not> result s1 then (False, s1)
         else (True, s1\<lparr>calls := calls s1 @ [Im_startup], initialized := True\<rparr>)))"

text \<open>Startup called again and again, each call with its own answer of \<^verbatim>\<open>_ip_startup\<close>.\<close>

fun ih_startup_seq :: "bool list \<Rightarrow> ih_state \<Rightarrow> bool list \<times> ih_state" where
  "ih_startup_seq [] s = ([], s)"
| "ih_startup_seq (ok # oks) s =
     (case ih_startup ok s of
        (r, s1) \<Rightarrow> (case ih_startup_seq oks s1 of (rs, s2) \<Rightarrow> (r # rs, s2)))"


text \<open>\<^verbatim>\<open>_ih_sub_cancel\<close>.\<close>

definition ih_sub_cancel :: "sub_ptr \<Rightarrow> ih_state \<Rightarrow> bool \<times> ih_state" where
  "ih_sub_cancel sub s =
     (if \<not> cancelled (subs s sub) then
        (True, s\<lparr>subs := (subs s)(sub := (subs s sub)\<lparr>cancelled := True\<rparr>),
                 calls := calls s @ [Im_rm sub, Ip_stop_watching sub]\<rparr>)
      else (True, s))"

subsection \<open>The collaborators\<close>

text \<open>
  Modelled from the spec: the contents of the Watch-Path Directory and of the Missing-Path
  Registry, whose code (\<^verbatim>\<open>inotify-path.c\<close>, \<^verbatim>\<open>inotify-missing.c\<close>) is not part of
  the helper. Each holds subscriptions, by pointer.
\<close>

record registries =
  watched :: "sub_ptr list"
  missing :: "sub_ptr list"


text \<open>
  The helper together with its collaborators: the helper's state, the registries, and
  the calls the two callbacks have made so far, each with the subscription it was made
  for.
\<close>

record system =
  ih :: ih_state
  regs :: registries
  log :: "(sub_ptr \<times> ext_call) list"






text \<open>A subscription is dropped when its flag is set and neither registry holds it.\<close>

definition dropped :: "sub_ptr \<Rightarrow> system \<Rightarrow> bool" where
  "dropped p s =
     (cancelled (subs (ih s) p) \<and> p \<notin> set (watched (regs s)) \<and> p \<notin> set (missing (regs s)))"

subsection \<open>Example inputs\<close>

text \<open>
  A subscription on \<^verbatim>\<open>/tmp/watch\<close>; a watch directory where descriptor 8 watches
  \<^verbatim>\<open>/srv/other\<close> and the others \<^verbatim>\<open>/tmp/watch\<close>; and the state of a program that has
  not called the helper yet: both static variables are \<^verbatim>\<open>FALSE\<close> and no call has been
  made.
\<close>

definition example_sub :: inotify_sub where
  "example_sub =
     \<lparr>dirname = ''/tmp/watch'', filename = None, cancelled = False, user_data = 1\<rparr>"

definition example_path_for_wd :: "int \<Rightarrow> string" where
  "example_path_for_wd w = (if w = 8 then ''/srv/other'' else ''/tmp/watch'')"

definition initial_state :: ih_state where
  "initial_state =
     \<lparr>initialized = False, result = False, subs = (\<lambda>p. example_sub), calls = []\<rparr>"




section \<open>Properties\<close>

lemmas IN_defs =
  IN_ACCESS_def IN_MODIFY_def IN_ATTRIB_def IN_CLOSE_WRITE_def IN_CLOSE_NOWRITE_def
  IN_OPEN_def IN_MOVED_FROM_def IN_MOVED_TO_def IN_CREATE_def IN_DELETE_def
  IN_DELETE_SELF_def IN_MOVE_SELF_def IN_UNMOUNT_def IN_Q_OVERFLOW_def IN_IGNORED_def
  IN_ISDIR_def IN_MOVE_def

subsection \<open>Masks\<close>

lemma strip_isdir_idem: "(m OR IN_ISDIR) AND NOT IN_ISDIR = m AND NOT IN_ISDIR"
  by (auto simp: bit_eq_iff bit_simps)

lemma strip_keeps_move: "(m AND NOT IN_ISDIR) AND IN_MOVE = m AND IN_MOVE"
proof -
  have "NOT IN_ISDIR AND IN_MOVE = IN_MOVE" by (simp add: IN_defs)
  then show ?thesis by (metis and.assoc)
qed

text \<open>
  A mask that is one of the two move bits, with or without the is-directory flag, has a
  bit of \<^verbatim>\<open>IN_MOVE\<close> and meets its own label of the \<^verbatim>\<open>switch\<close>.
\<close>

lemma single_move_mask:
  assumes "m AND NOT IN_ISDIR = IN_MOVED_FROM \<or> m AND NOT IN_ISDIR = IN_MOVED_TO"
  shows "m AND IN_MOVE \<noteq> 0"
    and "ih_mask_to_EventFlags m =
           (if m AND NOT IN_ISDIR = IN_MOVED_FROM then G_FILE_MONITOR_EVENT_MOVED_OUT
            else G_FILE_MONITOR_EVENT_MOVED_IN)"
proof -
  have "m AND IN_MOVE = (m AND NOT IN_ISDIR) AND IN_MOVE"
    by (simp add: strip_keeps_move)
  with assms show "m AND IN_MOVE \<noteq> 0" by (auto simp: IN_defs)
  from assms show "ih_mask_to_EventFlags m =
           (if m AND NOT IN_ISDIR = IN_MOVED_FROM then G_FILE_MONITOR_EVENT_MOVED_OUT
            else G_FILE_MONITOR_EVENT_MOVED_IN)"
    by (auto simp: ih_mask_to_EventFlags_def IN_defs)
qed

text \<open>
  C3. For every mask the mapping looks only at the mask without the is-directory flag:
  setting or clearing \<^verbatim>\<open>IN_ISDIR\<close> never changes the kind. Modify gives changed (also
  with the flag set), close-write the changes-done hint, attrib attribute-changed, create
  created, moved-from moved-out, moved-to moved-in, unmount unmounted. Open,
  close-no-write, access, queue-overflow and ignored give \<^verbatim>\<open>-1\<close>, and so does every
  mask whose remaining bits are none of the ten labels of the \<^verbatim>\<open>switch\<close> that carry a
  kind: the seven above and the three that give deleted.
\<close>

theorem mask_to_kind_table:
  "ih_mask_to_EventFlags (m AND NOT IN_ISDIR) = ih_mask_to_EventFlags m
   \<and> ih_mask_to_EventFlags (m OR IN_ISDIR) = ih_mask_to_EventFlags m
   \<and> ih_mask_to_EventFlags IN_MODIFY = G_FILE_MONITOR_EVENT_CHANGED
   \<and> ih_mask_to_EventFlags (IN_MODIFY OR IN_ISDIR) = G_FILE_MONITOR_EVENT_CHANGED
   \<and> ih_mask_to_EventFlags IN_CLOSE_WRITE = G_FILE_MONITOR_EVENT_CHANGES_DONE_HINT
   \<and> ih_mask_to_EventFlags IN_ATTRIB = G_FILE_MONITOR_EVENT_ATTRIBUTE_CHANGED
   \<and> ih_mask_to_EventFlags IN_CREATE = G_FILE_MONITOR_EVENT_CREATED
   \<and> ih_mask_to_EventFlags IN_MOVED_FROM = G_FILE_MONITOR_EVENT_MOVED_OUT
   \<and> ih_mask_to_EventFlags IN_MOVED_TO = G_FILE_MONITOR_EVENT_MOVED_IN
   \<and> ih_mask_to_EventFlags IN_UNMOUNT = G_FILE_MONITOR_EVENT_UNMOUNTED
   \<and> ih_mask_to_EventFlags IN_OPEN = G_FILE_MONITOR_EVENT_MINUS_ONE
   \<and> ih_mask_to_EventFlags IN_CLOSE_NOWRITE = G_FILE_MONITOR_EVENT_MINUS_ONE
   \<and> ih_mask_to_EventFlags IN_ACCESS = G_FILE_MONITOR_EVENT_MINUS_ONE
   \<and> ih_mask_to_EventFlags IN_Q_OVERFLOW = G_FILE_MONITOR_EVENT_MINUS_ONE
   \<and> ih_mask_to_EventFlags IN_IGNORED = G_FILE_MONITOR_EVENT_MINUS_ONE
   \<and> (m AND NOT IN_ISDIR \<notin>
          {IN_MODIFY, IN_CLOSE_WRITE, IN_ATTRIB, IN_MOVE_SELF, IN_DELETE, IN_DELETE_SELF,
           IN_CREATE, IN_MOVED_FROM, IN_MOVED_TO, IN_UNMOUNT}
        \<longrightarrow> ih_mask_to_EventFlags m = G_FILE_MONITOR_EVENT_MINUS_ONE)"
proof -
  have strip: "ih_mask_to_EventFlags (m AND NOT IN_ISDIR) = ih_mask_to_EventFlags m"
    by (simp add: ih_mask_to_EventFlags_def)
  have isdir: "ih_mask_to_EventFlags (m OR IN_ISDIR) = ih_mask_to_EventFlags m"
    by (simp add: ih_mask_to_EventFlags_def strip_isdir_idem)
  have entries:
    "ih_mask_to_EventFlags IN_MODIFY = G_FILE_MONITOR_EVENT_CHANGED"
    "ih_mask_to_EventFlags (IN_MODIFY OR IN_ISDIR) = G_FILE_MONITOR_EVENT_CHANGED"
    "ih_mask_to_EventFlags IN_CLOSE_WRITE = G_FILE_MONITOR_EVENT_CHANGES_DONE_HINT"
    "ih_mask_to_EventFlags IN_ATTRIB = G_FILE_MONITOR_EVENT_ATTRIBUTE_CHANGED"
    "ih_mask_to_EventFlags IN_CREATE = G_FILE_MONITOR_EVENT_CREATED"
    "ih_mask_to_EventFlags IN_MOVED_FROM = G_FILE_MONITOR_EVENT_MOVED_OUT"
    "ih_mask_to_EventFlags IN_MOVED_TO = G_FILE_MONITOR_EVENT_MOVED_IN"
    "ih_mask_to_EventFlags IN_UNMOUNT = G_FILE_MONITOR_EVENT_UNMOUNTED"
    by (simp_all add: ih_mask_to_EventFlags_def IN_defs)
  have dropped:
    "ih_mask_to_EventFlags IN_OPEN = G_FILE_MONITOR_EVENT_MINUS_ONE"
    "ih_mask_to_EventFlags IN_CLOSE_NOWRITE = G_FILE_MONITOR_EVENT_MINUS_ONE"
    "ih_mask_to_EventFlags IN_ACCESS = G_FILE_MONITOR_EVENT_MINUS_ONE"
    "ih_mask_to_EventFlags IN_Q_OVERFLOW = G_FILE_MONITOR_EVENT_MINUS_ONE"
    "ih_mask_to_EventFlags IN_IGNORED = G_FILE_MONITOR_EVENT_MINUS_ONE"
    by (simp_all add: ih_mask_to_EventFlags_def IN_defs)
  have rest: "m AND NOT IN_ISDIR \<notin>
          {IN_MODIFY, IN_CLOSE_WRITE, IN_ATTRIB, IN_MOVE_SELF, IN_DELETE, IN_DELETE_SELF,
           IN_CREATE, IN_MOVED_FROM, IN_MOVED_TO, IN_UNMOUNT}
        \<longrightarrow> ih_mask_to_EventFlags m = G_FILE_MONITOR_EVENT_MINUS_ONE"
    by (simp add: ih_mask_to_EventFlags_def Let_def)
  from strip isdir entries dropped rest show ?thesis by blast
qed

text \<open>
  The mask of access and modify together, on a directory, is in no label: it gives
  \<^verbatim>\<open>-1\<close>.
\<close>

theorem mask_to_kind_table_witness:
  "(IN_ACCESS OR IN_MODIFY OR IN_ISDIR) AND NOT IN_ISDIR \<notin>
          {IN_MODIFY, IN_CLOSE_WRITE, IN_ATTRIB, IN_MOVE_SELF, IN_DELETE, IN_DELETE_SELF,
           IN_CREATE, IN_MOVED_FROM, IN_MOVED_TO, IN_UNMOUNT}
   \<and> ih_mask_to_EventFlags (IN_ACCESS OR IN_MODIFY OR IN_ISDIR) = G_FILE_MONITOR_EVENT_MINUS_ONE"
proof -
  have h: "(IN_ACCESS OR IN_MODIFY OR IN_ISDIR) AND NOT IN_ISDIR \<notin>
          {IN_MODIFY, IN_CLOSE_WRITE, IN_ATTRIB, IN_MOVE_SELF, IN_DELETE, IN_DELETE_SELF,
           IN_CREATE, IN_MOVED_FROM, IN_MOVED_TO, IN_UNMOUNT}"
    by (simp add: IN_defs)
  show ?thesis
    using h mask_to_kind_table [of "IN_ACCESS OR IN_MODIFY OR IN_ISDIR"] by blast
qed

text \<open>
  C4, as the claim states it, fails: unmount is not sent to deleted. The \<^verbatim>\<open>switch\<close>
  has a label of its own for \<^verbatim>\<open>IN_UNMOUNT\<close>.
\<close>

theorem unmount_not_deleted_counterexample:
  "ih_mask_to_EventFlags IN_UNMOUNT \<noteq> G_FILE_MONITOR_EVENT_DELETED"
  by (simp add: ih_mask_to_EventFlags_def IN_defs)

text \<open>
  C4, amended. The mapping sends each of the three raw kinds delete, delete-self and
  move-self to the single kind deleted, with or without the is-directory flag; unmount
  is sent to unmounted.
\<close>

theorem deleted_kinds:
  "ih_mask_to_EventFlags IN_DELETE = G_FILE_MONITOR_EVENT_DELETED
   \<and> ih_mask_to_EventFlags IN_DELETE_SELF = G_FILE_MONITOR_EVENT_DELETED
   \<and> ih_mask_to_EventFlags IN_MOVE_SELF = G_FILE_MONITOR_EVENT_DELETED
   \<and> ih_mask_to_EventFlags (IN_DELETE OR IN_ISDIR) = G_FILE_MONITOR_EVENT_DELETED
   \<and> ih_mask_to_EventFlags (IN_DELETE_SELF OR IN_ISDIR) = G_FILE_MONITOR_EVENT_DELETED
   \<and> ih_mask_to_EventFlags (IN_MOVE_SELF OR IN_ISDIR) = G_FILE_MONITOR_EVENT_DELETED
   \<and> ih_mask_to_EventFlags IN_UNMOUNT = G_FILE_MONITOR_EVENT_UNMOUNTED
   \<and> ih_mask_to_EventFlags (IN_UNMOUNT OR IN_ISDIR) = G_FILE_MONITOR_EVENT_UNMOUNTED"
  by (simp add: ih_mask_to_EventFlags_def IN_defs)

subsection \<open>Paths\<close>

text \<open>
  C5. For every directory, optional file name and raw event, the full path is the
  directory, a slash and the override when one is given; otherwise the directory, a slash
  and the event's name when the event has one; otherwise the directory and a slash.
\<close>

theorem fullpath_cases:
  "ih_fullpath_from_event event dir (Some f) = dir @ ''/'' @ f
   \<and> ih_fullpath_from_event (Ik_event w m (Some n) p t) dir None = dir @ ''/'' @ n
   \<and> ih_fullpath_from_event (Ik_event w m None p t) dir None = dir @ ''/''"
  by (simp add: ih_fullpath_from_event_def)

theorem fullpath_cases_witness:
  "ih_fullpath_from_event (Ik_event 7 IN_CREATE (Some ''foo.txt'') None 12) ''/tmp/watch''
      (Some ''bar'') = ''/tmp/watch/bar''
   \<and> ih_fullpath_from_event (Ik_event 7 IN_CREATE (Some ''foo.txt'') None 12) ''/tmp/watch''
      None = ''/tmp/watch/foo.txt''
   \<and> ih_fullpath_from_event (Ik_event 7 IN_DELETE_SELF None None 12) ''/tmp/watch''
      None = ''/tmp/watch/''"
  using fullpath_cases [of "Ik_event 7 IN_CREATE (Some ''foo.txt'') None 12" "''/tmp/watch''"
      "''bar''" 7 IN_CREATE "''foo.txt''" None 12]
    fullpath_cases [of "Ik_event 7 IN_CREATE (Some ''foo.txt'') None 12" "''/tmp/watch''"
      "''bar''" 7 IN_DELETE_SELF "''foo.txt''" None 12]
  by simp

subsection \<open>The event callback\<close>

text \<open>
  C1. For every raw event whose mask has a bit of \<^verbatim>\<open>IN_MOVE\<close>, whose pair exists and
  whose pair has the same watch descriptor, the callback makes one call and no other: it
  delivers one event of kind renamed to the subscription's sink, with the event's name
  first, the pair's name second, and no other file.
\<close>

theorem rename_same_watch:
  assumes "ev_mask event AND IN_MOVE \<noteq> 0"
    and "ev_pair event = Some pair"
    and "ev_wd pair = ev_wd event"
  shows "ih_event_callback path_for_wd event sub False =
           Inr [G_file_monitor_source_handle_event (user_data sub)
                  G_FILE_MONITOR_EVENT_RENAMED
                  (ev_name event) (ev_name pair) None (ev_timestamp event)]"
  using assms by (simp add: ih_event_callback_def)

text \<open>The move of \<^verbatim>\<open>a\<close> to \<^verbatim>\<open>b\<close> inside the directory of watch 7.\<close>

theorem rename_same_watch_witness:
  "ih_event_callback (\<lambda>w. ''/tmp/watch'')
     (Ik_event 7 IN_MOVED_FROM (Some ''a'')
        (Some (Ik_event 7 IN_MOVED_TO (Some ''b'') None 12)) 12)
     example_sub False =
   Inr [G_file_monitor_source_handle_event 1 G_FILE_MONITOR_EVENT_RENAMED
          (Some ''a'') (Some ''b'') None 12]"
proof -
  let ?p = "Ik_event 7 IN_MOVED_TO (Some ''b'') None 12"
  let ?e = "Ik_event 7 IN_MOVED_FROM (Some ''a'') (Some ?p) 12"
  have m: "ev_mask ?e AND IN_MOVE \<noteq> 0" by (simp add: IN_defs)
  have p: "ev_pair ?e = Some ?p" by simp
  have w: "ev_wd ?p = ev_wd ?e" by simp
  show ?thesis
    using rename_same_watch [OF m p w, of "\<lambda>w. ''/tmp/watch''" example_sub]
    by (simp add: example_sub_def)
qed

text \<open>
  C2. The Raw Event Source delivers masks of one concern, so the mask of a move-family
  event is \<^verbatim>\<open>IN_MOVED_FROM\<close> or \<^verbatim>\<open>IN_MOVED_TO\<close>, with or without the is-directory
  flag; such a mask has a bit of \<^verbatim>\<open>IN_MOVE\<close>. For every such event whose pair is absent
  or has another watch descriptor, the callback delivers exactly one event. Its kind is
  moved-out for \<^verbatim>\<open>IN_MOVED_FROM\<close> and moved-in for \<^verbatim>\<open>IN_MOVED_TO\<close>; its second name
  is null. With no pair the other file is null and nothing else is called. With a pair,
  the other file is made, before the delivery, from the full path of the pair (the
  directory of the pair's watch descriptor, a slash, the pair's name) and is released
  after the delivery.
\<close>

theorem move_other_watch:
  assumes "ev_mask event AND NOT IN_ISDIR = IN_MOVED_FROM
           \<or> ev_mask event AND NOT IN_ISDIR = IN_MOVED_TO"
    and "ev_pair event = None \<or> ev_pair event = Some pair \<and> ev_wd pair \<noteq> ev_wd event"
  shows "ev_mask event AND IN_MOVE \<noteq> 0
         \<and> ih_event_callback path_for_wd event sub False =
           Inr (case ev_pair event of
                  None \<Rightarrow>
                    [G_file_monitor_source_handle_event (user_data sub)
                       (if ev_mask event AND NOT IN_ISDIR = IN_MOVED_FROM
                          then G_FILE_MONITOR_EVENT_MOVED_OUT
                        else G_FILE_MONITOR_EVENT_MOVED_IN)
                       (ev_name event) None None (ev_timestamp event)]
                | Some p \<Rightarrow>
                    [G_file_new_for_path
                       (ih_fullpath_from_event p (path_for_wd (ev_wd p)) None),
                     G_file_monitor_source_handle_event (user_data sub)
                       (if ev_mask event AND NOT IN_ISDIR = IN_MOVED_FROM
                          then G_FILE_MONITOR_EVENT_MOVED_OUT
                        else G_FILE_MONITOR_EVENT_MOVED_IN)
                       (ev_name event) None
                       (Some (GFile_for_path
                          (ih_fullpath_from_event p (path_for_wd (ev_wd p)) None)))
                       (ev_timestamp event),
                     G_object_unref (GFile_for_path
                       (ih_fullpath_from_event p (path_for_wd (ev_wd p)) None))])"
proof -
  note k = single_move_mask [OF assms(1)]
  from assms(2) show ?thesis
  proof
    assume "ev_pair event = None"
    with k show ?thesis by (simp add: ih_event_callback_def)
  next
    assume "ev_pair event = Some pair \<and> ev_wd pair \<noteq> ev_wd event"
    with k show ?thesis by (simp add: ih_event_callback_def Let_def)
  qed
qed

text \<open>
  A directory \<^verbatim>\<open>a\<close> moved out of watch 7 into the directory of watch 8 as \<^verbatim>\<open>b\<close>,
  and a file \<^verbatim>\<open>c\<close> moved into watch 7 from a place that is not watched.
\<close>

theorem move_other_watch_witness:
  "ih_event_callback example_path_for_wd
     (Ik_event 7 (IN_MOVED_FROM OR IN_ISDIR) (Some ''a'')
        (Some (Ik_event 8 IN_MOVED_TO (Some ''b'') None 12)) 12)
     example_sub False =
   Inr [G_file_new_for_path ''/srv/other/b'',
        G_file_monitor_source_handle_event 1 G_FILE_MONITOR_EVENT_MOVED_OUT
          (Some ''a'') None (Some (GFile_for_path ''/srv/other/b'')) 12,
        G_object_unref (GFile_for_path ''/srv/other/b'')]
   \<and> ih_event_callback example_path_for_wd
       (Ik_event 7 IN_MOVED_TO (Some ''c'') None 13) example_sub False =
     Inr [G_file_monitor_source_handle_event 1 G_FILE_MONITOR_EVENT_MOVED_IN
            (Some ''c'') None None 13]"
proof -
  let ?p = "Ik_event 8 IN_MOVED_TO (Some ''b'') None 12"
  let ?e = "Ik_event 7 (IN_MOVED_FROM OR IN_ISDIR) (Some ''a'') (Some ?p) 12"
  let ?u = "Ik_event 7 IN_MOVED_TO (Some ''c'') None 13"
  have k: "(IN_MOVED_FROM OR IN_ISDIR) AND NOT IN_ISDIR = IN_MOVED_FROM"
    by (simp add: IN_defs)
  have m: "ev_mask ?e AND NOT IN_ISDIR = IN_MOVED_FROM
           \<or> ev_mask ?e AND NOT IN_ISDIR = IN_MOVED_TO"
    using k by simp
  have p: "ev_pair ?e = None \<or> ev_pair ?e = Some ?p \<and> ev_wd ?p \<noteq> ev_wd ?e" by simp
  have k': "IN_MOVED_TO AND NOT IN_ISDIR = IN_MOVED_TO" "IN_MOVED_TO \<noteq> IN_MOVED_FROM"
    by (simp_all add: IN_defs)
  have m': "ev_mask ?u AND NOT IN_ISDIR = IN_MOVED_FROM
            \<or> ev_mask ?u AND NOT IN_ISDIR = IN_MOVED_TO"
    using k' by simp
  have p': "ev_pair ?u = None \<or> ev_pair ?u = Some ?p \<and> ev_wd ?p \<noteq> ev_wd ?u" by simp
  have first: "ih_event_callback example_path_for_wd ?e example_sub False =
     Inr [G_file_new_for_path ''/srv/other/b'',
          G_file_monitor_source_handle_event 1 G_FILE_MONITOR_EVENT_MOVED_OUT
            (Some ''a'') None (Some (GFile_for_path ''/srv/other/b'')) 12,
          G_object_unref (GFile_for_path ''/srv/other/b'')]"
    using move_other_watch [OF m p, of example_path_for_wd example_sub] k
    by (simp add: ih_fullpath_from_event_def example_sub_def example_path_for_wd_def)
  have second: "ih_event_callback example_path_for_wd ?u example_sub False =
     Inr [G_file_monitor_source_handle_event 1 G_FILE_MONITOR_EVENT_MOVED_IN
            (Some ''c'') None None 13]"
    using move_other_watch [OF m' p', of example_path_for_wd example_sub] k'
    by (simp add: example_sub_def)
  from first second show ?thesis by (rule conjI)
qed

text \<open>
  C9. A call with \<^verbatim>\<open>file_event\<close> true fails the assertion that opens the callback:
  whatever the event and the subscription, nothing is translated and nothing is
  delivered.
\<close>

theorem hardlink_event_asserts:
  "ih_event_callback path_for_wd event sub True = Inl Assertion_failed"
  by (simp add: ih_event_callback_def)

theorem hardlink_event_asserts_witness:
  "ih_event_callback (\<lambda>w. ''/tmp/watch'')
     (Ik_event 7 IN_CREATE (Some ''foo.txt'') None 12) example_sub True =
   Inl Assertion_failed"
  using hardlink_event_asserts
    [of "\<lambda>w. ''/tmp/watch''" "Ik_event 7 IN_CREATE (Some ''foo.txt'') None 12" example_sub]
  by simp

subsection \<open>Cancelling\<close>

lemma ih_sub_cancel_fresh:
  "\<not> cancelled (subs s sub) \<Longrightarrow>
     ih_sub_cancel sub s =
       (True, s\<lparr>subs := (subs s)(sub := (subs s sub)\<lparr>cancelled := True\<rparr>),
                calls := calls s @ [Im_rm sub, Ip_stop_watching sub]\<rparr>)"
  by (simp add: ih_sub_cancel_def)

lemma ih_sub_cancel_again: "cancelled (subs s sub) \<Longrightarrow> ih_sub_cancel sub s = (True, s)"
  by (simp add: ih_sub_cancel_def)

lemma ih_sub_cancel_sets_flag: "cancelled (subs (snd (ih_sub_cancel sub s)) sub)"
  by (simp add: ih_sub_cancel_def)

text \<open>
  C6. Cancel on a subscription that is not cancelled returns true, sets the flag of that
  subscription, and calls the removal of the missing registry and then the stop of the
  watch directory, once each, for that subscription; nothing else changes. Cancel on a
  subscription whose flag is set returns true and leaves the whole state as it was. So a
  second cancel, right after the first, changes nothing.
\<close>

theorem cancel_twice:
  "(\<not> cancelled (subs s sub) \<longrightarrow>
      ih_sub_cancel sub s =
        (True, s\<lparr>subs := (subs s)(sub := (subs s sub)\<lparr>cancelled := True\<rparr>),
                 calls := calls s @ [Im_rm sub, Ip_stop_watching sub]\<rparr>))
   \<and> (cancelled (subs s sub) \<longrightarrow> ih_sub_cancel sub s = (True, s))
   \<and> ih_sub_cancel sub (snd (ih_sub_cancel sub s)) = (True, snd (ih_sub_cancel sub s))"
proof (intro conjI impI)
  assume "\<not> cancelled (subs s sub)"
  then show "ih_sub_cancel sub s =
        (True, s\<lparr>subs := (subs s)(sub := (subs s sub)\<lparr>cancelled := True\<rparr>),
                 calls := calls s @ [Im_rm sub, Ip_stop_watching sub]\<rparr>)"
    by (rule ih_sub_cancel_fresh)
next
  assume "cancelled (subs s sub)"
  then show "ih_sub_cancel sub s = (True, s)" by (rule ih_sub_cancel_again)
next
  show "ih_sub_cancel sub (snd (ih_sub_cancel sub s)) = (True, snd (ih_sub_cancel sub s))"
    using ih_sub_cancel_sets_flag by (rule ih_sub_cancel_again)
qed

text \<open>The subscription at address 3, cancelled twice.\<close>

theorem cancel_twice_witness:
  "\<not> cancelled (subs initial_state 3)
   \<and> ih_sub_cancel 3 initial_state =
       (True, initial_state
                \<lparr>subs := (subs initial_state)(3 := example_sub\<lparr>cancelled := True\<rparr>),
                 calls := [Im_rm 3, Ip_stop_watching 3]\<rparr>)
   \<and> cancelled (subs (snd (ih_sub_cancel 3 initial_state)) 3)
   \<and> ih_sub_cancel 3 (snd (ih_sub_cancel 3 initial_state)) =
       (True, snd (ih_sub_cancel 3 initial_state))"
proof -
  have h: "\<not> cancelled (subs initial_state 3)"
    by (simp add: initial_state_def example_sub_def)
  have c: "cancelled (subs (snd (ih_sub_cancel 3 initial_state)) 3)"
    by (simp add: ih_sub_cancel_def)
  show ?thesis
    using h c cancel_twice [of initial_state 3]
    by (simp add: initial_state_def ih_sub_cancel_def)
qed

subsection \<open>No delivery after cancel\<close>







subsection \<open>Startup\<close>

lemma ih_startup_latched:
  "initialized s \<Longrightarrow> result s \<Longrightarrow> ih_startup ok s = (True, s)"
  by (simp add: ih_startup_def)

lemma ih_startup_success_state:
  "ih_startup ok s = (True, s1) \<Longrightarrow> initialized s1 \<and> result s1"
  by (auto simp: ih_startup_def Let_def split: if_splits)

lemma ih_startup_seq_latched:
  "initialized s \<Longrightarrow> result s \<Longrightarrow> ih_startup_seq oks s = (replicate (length oks) True, s)"
  by (induction oks) (simp_all add: ih_startup_latched)

text \<open>
  C8. After a call of startup that returned true, every later call returns true and
  leaves the state as it is, whatever the watch directory would answer: no call to the
  watch directory or to the missing registry is added. When that successful call was the
  one that initialized, it started the watch directory and then the missing registry,
  once each.
\<close>

theorem startup_cached:
  assumes "ih_startup ok s = (True, s1)"
  shows "ih_startup_seq oks s1 = (replicate (length oks) True, s1)
         \<and> (\<not> initialized s \<longrightarrow> calls s1 = calls s @ [Ip_startup, Im_startup])"
proof
  from assms have "initialized s1" "result s1"
    using ih_startup_success_state by blast+
  then show "ih_startup_seq oks s1 = (replicate (length oks) True, s1)"
    by (rule ih_startup_seq_latched)
  show "\<not> initialized s \<longrightarrow> calls s1 = calls s @ [Ip_startup, Im_startup]"
    using assms by (auto simp: ih_startup_def Let_def split: if_splits)
qed

text \<open>The first startup of a program succeeds; three more calls follow.\<close>

theorem startup_cached_witness:
  "ih_startup True initial_state =
     (True, initial_state\<lparr>result := True, calls := [Ip_startup, Im_startup],
                          initialized := True\<rparr>)
   \<and> ih_startup_seq [False, True, False]
       (initial_state\<lparr>result := True, calls := [Ip_startup, Im_startup],
                      initialized := True\<rparr>) =
     ([True, True, True],
      initial_state\<lparr>result := True, calls := [Ip_startup, Im_startup],
                     initialized := True\<rparr>)"
proof -
  let ?s1 = "initial_state\<lparr>result := True, calls := [Ip_startup, Im_startup],
                           initialized := True\<rparr>"
  have h: "ih_startup True initial_state = (True, ?s1)"
    by (simp add: ih_startup_def initial_state_def)
  show ?thesis
    using h startup_cached [OF h, of "[False, True, False]"] by simp
qed

text \<open>
  C10. A call of startup on a state that is not initialized, in which the watch directory
  fails to start, returns false and leaves the initialized flag unset; the missing
  registry is not started. The next call starts the watch directory again, and when that
  succeeds it starts the missing registry, sets the flag and returns true. In general,
  after one call on a state that is not initialized, the flag is set exactly when the
  watch directory started.
\<close>

theorem startup_failure_not_latched:
  assumes "\<not> initialized s"
  shows "ih_startup False s = (False, s\<lparr>result := False, calls := calls s @ [Ip_startup]\<rparr>)
         \<and> \<not> initialized (snd (ih_startup False s))
         \<and> ih_startup True (snd (ih_startup False s)) =
             (True, s\<lparr>result := True,
                      calls := calls s @ [Ip_startup, Ip_startup, Im_startup],
                      initialized := True\<rparr>)
         \<and> calls (snd (ih_startup False (snd (ih_startup False s)))) =
             calls s @ [Ip_startup, Ip_startup]
         \<and> initialized (snd (ih_startup ok s)) = ok"
  using assms by (simp add: ih_startup_def Let_def)

text \<open>The first startup of a program fails, the second succeeds.\<close>

theorem startup_failure_not_latched_witness:
  "\<not> initialized initial_state
   \<and> ih_startup False initial_state = (False, initial_state\<lparr>calls := [Ip_startup]\<rparr>)
   \<and> ih_startup True (snd (ih_startup False initial_state)) =
       (True, initial_state\<lparr>result := True,
                            calls := [Ip_startup, Ip_startup, Im_startup],
                            initialized := True\<rparr>)"
proof -
  have n: "\<not> initialized initial_state" by (simp add: initial_state_def)
  show ?thesis
    using n startup_failure_not_latched [OF n, of True]
    by (simp add: initial_state_def ih_startup_def)
qed

end
